theory Spec2Isabelle
  imports Main "HOL-Library.Multiset" "HOL-Library.AList"
begin

section \<open>Errors\<close>

text \<open>
  The exceptions the modelled code raises, each with its message.
  \<open>TypeError\<close> is raised by \<open>create_request_model\<close> and by Python when it cannot
  create a class, \<open>NotFoundError\<close> by \<open>get_extension\<close>, and \<open>ValueError\<close> by attrs
  and pydantic when they refuse a class.
\<close>

datatype error = TypeError string | NotFoundError string | ValueError string

section \<open>Python values and field declarations\<close>

text \<open>
  The values that occur as defaults and metadata of request fields. \<open>Undefined\<close> is
  pydantic's marker for "no default given", \<open>Ellipsis\<close> is Python's \<open>...\<close> (a required
  parameter), \<open>PyCallable\<close> is a function known by its name.
\<close>

datatype pyval =
    Undefined
  | Ellipsis
  | PyNone
  | PyBool bool
  | PyInt int
  | PyStr string
  | PyCallable string
  | PyDict "(string \<times> pyval) list"

text \<open>
  The keyword arguments of a field declaration, which pydantic's \<open>FieldInfo\<close> keeps as
  attributes of the same names (\<open>field_alias\<close> is \<open>alias\<close>); \<open>extra\<close> is the
  dictionary of the keyword arguments \<open>FieldInfo\<close> does not know.
\<close>

record field_keywords =
  default_factory :: "string option"
  field_alias :: "string option"
  alias_priority :: "int option"
  title :: "string option"
  description :: "string option"
  const :: "bool option"
  gt :: "int option"
  ge :: "int option"
  lt :: "int option"
  le :: "int option"
  multiple_of :: "int option"
  min_items :: "int option"
  max_items :: "int option"
  min_length :: "int option"
  max_length :: "int option"
  regex :: "string option"
  extra :: "(string \<times> pyval) list"

text \<open>
  pydantic's \<open>FieldInfo\<close> and its FastAPI subclasses \<open>Query\<close>, \<open>Path\<close> and \<open>Body\<close>:
  the keyword attributes and the default. \<open>kind\<close> tells which of the four classes the
  object is an instance of.
\<close>

datatype param_kind = FieldKind | QueryKind | PathKind | BodyKind

record FieldInfo = field_keywords +
  kind :: param_kind
  default :: pyval

text \<open>
  \<open>FieldInfo.__init__(default, **kwargs)\<close> for the keyword arguments this repository
  uses (\<open>alias\<close>, \<open>description\<close>); everything else is left at pydantic's default, and
  \<open>alias_priority\<close> becomes 2 exactly when an alias is given.
\<close>

definition FieldInfo_init :: "param_kind \<Rightarrow> pyval \<Rightarrow> string option \<Rightarrow> string option \<Rightarrow> FieldInfo" where
  "FieldInfo_init k d al descr =
     \<lparr>default_factory = None, field_alias = al,
      alias_priority = (if al = None then None else Some 2),
      title = None, description = descr, const = None,
      gt = None, ge = None, lt = None, le = None, multiple_of = None,
      min_items = None, max_items = None, min_length = None, max_length = None,
      regex = None, extra = [], kind = k, default = d\<rparr>"

text \<open>A Python object bound to a class attribute: a plain value or a field declaration.\<close>

datatype pyobj = Val pyval | Param FieldInfo

definition Query :: "pyval \<Rightarrow> string option \<Rightarrow> string option \<Rightarrow> pyobj" where
  "Query d al descr = Param (FieldInfo_init QueryKind d al descr)"

definition Path :: "pyval \<Rightarrow> string option \<Rightarrow> string option \<Rightarrow> pyobj" where
  "Path d al descr = Param (FieldInfo_init PathKind d al descr)"


section \<open>Request model classes\<close>

text \<open>
  An attrs attribute (\<open>attr.ib(default=..., converter=...)\<close>): \<open>attr_default = None\<close>
  is attrs' \<open>NOTHING\<close>, a mandatory attribute. The other options of \<open>attr.ib\<close> are left
  at their defaults throughout this repository. \<open>inherited\<close> is set by attrs on the
  attributes a class takes over from its bases. The converter is known by its name.
\<close>

record Attribute =
  attr_name :: string
  attr_default :: "pyobj option"
  converter :: "string option"
  inherited :: bool

definition attr_ib :: "string \<Rightarrow> pyobj option \<Rightarrow> string option \<Rightarrow> Attribute" where
  "attr_ib n d conv = \<lparr>attr_name = n, attr_default = d, converter = conv, inherited = False\<rparr>"

text \<open>
  A type, by its text. \<open>Constrained\<close> is a type pydantic has built from an annotation
  and numeric or item bounds (\<open>conint\<close>, \<open>confloat\<close>, \<open>conlist\<close> and the like);
  \<open>Plain\<close> is any other type.
\<close>

datatype pytype = Plain string | Constrained string

text \<open>
  A pydantic \<open>ModelField\<close>: the values of \<open>model.__fields__\<close>, with the attributes
  \<open>field_info\<close> and \<open>outer_type_\<close> (here \<open>outer_type\<close>). For a field declared with
  numeric or item bounds, \<open>outer_type_\<close> is the constrained type pydantic built.
\<close>

record ModelField =
  field_info :: FieldInfo
  outer_type :: pytype

text \<open>
  A request model class, as \<open>create_request_model\<close> inspects it. The attrs classes
  are declared as in this repository, with a plain \<open>@attr.s\<close> (no slots).
  \<^item> \<open>bases\<close> is \<open>__bases__\<close> and \<open>mro\<close> is \<open>__mro__\<close>, the class itself first; classes
    are known by their names;
  \<^item> \<open>is_APIRequest\<close> is \<open>issubclass(m, APIRequest)\<close> and \<open>is_BaseModel\<close> is
    \<open>issubclass(m, BaseModel)\<close>;
  \<^item> \<open>attrs_attrs\<close> is \<open>__attrs_attrs__\<close>, the attributes attrs knows of the class,
    inherited ones first;
  \<^item> \<open>class_vars\<close> are the plain class attributes visible on the class, which attrs
    ignores (an assignment that is not an \<open>attr.ib\<close> under \<open>@attr.s\<close>);
  \<^item> \<open>model_fields\<close> is pydantic's \<open>__fields__\<close>, a dictionary in insertion order.
\<close>

record request_model =
  cls_name :: string
  bases :: "string list"
  mro :: "string list"
  is_APIRequest :: bool
  is_BaseModel :: bool
  attrs_attrs :: "Attribute list"
  class_vars :: "(string \<times> pyobj) list"
  model_fields :: "(string \<times> ModelField) list"


subsection \<open>Python: the method resolution order of a new class\<close>

text \<open>
  Python computes the method resolution order of a new class by C3 linearisation: it
  merges the orders of the bases and the list of the bases. A candidate is the head of
  a sequence that occurs in the tail of none.
\<close>

definition c3_candidate :: "string list list \<Rightarrow> string option" where
  "c3_candidate seqs = find (\<lambda>c. list_all (\<lambda>s. c \<notin> set (tl s)) seqs) (map hd seqs)"

text \<open>
  The merge of C3: while a sequence is left, the first head that stands in no tail is
  the next class, and it is removed from the heads; when no head qualifies there is no
  consistent order.
\<close>

function c3_merge :: "string list list \<Rightarrow> string list option" where
  "c3_merge seqs =
     (let nonempty = filter (\<lambda>s. s \<noteq> []) seqs
      in if nonempty = [] then Some []
         else case c3_candidate nonempty of
                None \<Rightarrow> None
              | Some c \<Rightarrow>
                  map_option ((#) c)
                    (c3_merge (map (\<lambda>s. if hd s = c then tl s else s) nonempty)))"
  by pat_completeness auto
termination
proof (relation "measure (\<lambda>seqs. sum_list (map length seqs))")
  show "wf (measure (\<lambda>seqs. sum_list (map length seqs)))" by simp
next
  fix seqs :: "string list list" and nonempty c
  assume n: "nonempty = filter (\<lambda>s. s \<noteq> []) seqs" and "nonempty \<noteq> []"
    and c: "c3_candidate nonempty = Some c"
  let ?step = "\<lambda>s. if hd s = c then tl s else s"
  have le: "sum_list (map length (map ?step xs)) \<le> sum_list (map length xs)" for xs :: "string list list"
    by (induction xs) (auto simp: le_SucI)
  have less: "s0 \<in> set xs \<Longrightarrow> s0 \<noteq> [] \<Longrightarrow> hd s0 = c \<Longrightarrow>
      sum_list (map length (map ?step xs)) < sum_list (map length xs)" for s0 and xs :: "string list list"
  proof (induction xs)
    case Nil
    then show ?case by simp
  next
    case (Cons s xs)
    show ?case
    proof (cases "s = s0")
      case True
      with Cons.prems le [of xs] show ?thesis by (cases s) auto
    next
      case False
      with Cons have "sum_list (map length (map ?step xs)) < sum_list (map length xs)"
        by auto
      then show ?thesis by (cases s) auto
    qed
  qed
  from c have "\<exists>s \<in> set nonempty. hd s = c"
    by (auto simp: c3_candidate_def find_Some_iff)
  then obtain s0 where s0: "s0 \<in> set nonempty" "hd s0 = c"
    by blast
  with n have "s0 \<noteq> []" by auto
  with s0 have "sum_list (map length (map ?step nonempty)) < sum_list (map length nonempty)"
    by (intro less) auto
  also have "\<dots> \<le> sum_list (map length seqs)"
    unfolding n by (induction seqs) auto
  finally show "(map ?step nonempty, seqs) \<in> measure (\<lambda>seqs. sum_list (map length seqs))"
    by simp
qed

declare c3_merge.simps [simp del]

text \<open>
  Creating a class with the bases \<open>bs\<close>: Python raises \<open>TypeError\<close> when a base
  occurs twice and when the bases have no consistent method resolution order (a base
  listed before one of its own subclasses, for instance). Otherwise the order of the
  new class is the class itself followed by the merge. The messages leave out the
  names of the classes.
\<close>

definition method_resolution_order :: "request_model list \<Rightarrow> error + string list" where
  "method_resolution_order bs =
     (if \<not> distinct (map cls_name bs) then Inl (TypeError ''duplicate base class'')
      else case c3_merge (map mro bs @ [map cls_name bs]) of
             None \<Rightarrow> Inl (TypeError
               ''Cannot create a consistent method resolution order (MRO) for bases'')
           | Some order \<Rightarrow> Inr order)"

subsection \<open>The attrs library: building a class\<close>

text \<open>
  attrs collects the attributes of the bases front first and skips a name it has
  already taken (\<open>_collect_base_attrs_broken\<close>, the behaviour of \<open>attr.s\<close> and
  \<open>attr.make_class\<close> unless \<open>collect_by_mro\<close> is set). Each collected attribute is
  marked inherited.
\<close>

fun collect_attrs :: "Attribute list \<Rightarrow> string list \<Rightarrow> Attribute list" where
  "collect_attrs [] taken = []"
| "collect_attrs (a # as) taken =
     (if attr_name a \<in> set taken then collect_attrs as taken
      else a\<lparr>inherited := True\<rparr> # collect_attrs as (attr_name a # taken))"

text \<open>
  attrs walks the method resolution order of the new class. The bases stand there in
  their given order, and a class stands before its ancestors, whose attribute names
  are among its own \<open>__attrs_attrs__\<close>: an ancestor met on the way adds nothing, and
  what is collected is what the bases give, in their order.
\<close>

definition collect_base_attrs :: "request_model list \<Rightarrow> string list \<Rightarrow> Attribute list" where
  "collect_base_attrs bs taken = collect_attrs (concat (map attrs_attrs bs)) taken"

text \<open>
  attrs refuses a class in which a mandatory attribute follows one with a default:
  the first such attribute, if any.
\<close>

fun mandatory_after_default :: "bool \<Rightarrow> Attribute list \<Rightarrow> Attribute option" where
  "mandatory_after_default had_default [] = None"
| "mandatory_after_default had_default (a # as) =
     (if had_default \<and> attr_default a = None then Some a
      else mandatory_after_default (had_default \<or> attr_default a \<noteq> None) as)"

text \<open>
  \<open>attr.make_class(name, attrs, bases)\<close>, and with it the decorator \<open>@attr.s\<close> on a
  class statement with these bases and \<open>attr.ib\<close> assignments. Python creates the
  class first, which fails as \<open>method_resolution_order\<close> says; attrs then gives it
  the attributes collected from the bases followed by its own. The error message of
  attrs names the attribute in place of its \<open>repr\<close>. \<open>vars\<close> are the plain class
  attributes of the class body; attribute lookup finds them before those of the bases.
\<close>

definition make_class ::
  "string \<Rightarrow> Attribute list \<Rightarrow> (string \<times> pyobj) list \<Rightarrow> request_model list \<Rightarrow> error + request_model" where
  "make_class name attrs vars bs =
     (case method_resolution_order bs of
        Inl e \<Rightarrow> Inl e
      | Inr order \<Rightarrow>
          (let base_attrs = collect_base_attrs bs (map attr_name attrs);
               all_attrs = base_attrs @ attrs
           in case mandatory_after_default False all_attrs of
                Some a \<Rightarrow> Inl (ValueError
                  (''No mandatory attributes allowed after an attribute with a default value or factory.  Attribute in question: ''
                   @ attr_name a))
              | None \<Rightarrow> Inr
                  \<lparr>cls_name = name,
                   bases = map cls_name bs,
                   mro = name # order,
                   is_APIRequest = list_ex is_APIRequest bs,
                   is_BaseModel = list_ex is_BaseModel bs,
                   attrs_attrs = all_attrs,
                   class_vars = vars @ concat (map class_vars bs),
                   model_fields = concat (map model_fields bs)\<rparr>))"

subsection \<open>pydantic and FastAPI: body parameters and create_model\<close>

text \<open>
  \<open>Body(default, **kwargs)\<close> as \<open>create_request_model\<close> calls it. It hands its keyword
  arguments to \<open>FieldInfo.__init__\<close>, which takes the ones it knows as attributes and
  keeps the rest as the dictionary \<open>extra\<close>. The keyword \<open>extra\<close> is not one it knows,
  so the dictionary passed under that name becomes the entry \<open>extra\<close> of the new
  object's \<open>extra\<close>.
\<close>

definition Body :: "pyval \<Rightarrow> field_keywords \<Rightarrow> FieldInfo" where
  "Body d kw =
     field_keywords.extend (kw\<lparr>extra := [(''extra'', PyDict (extra kw))]\<rparr>)
       (FieldInfo.fields BodyKind d)"

text \<open>
  The numeric and item bounds of a declaration: pydantic enforces them by the type of
  the field.
\<close>

definition has_bounds :: "FieldInfo \<Rightarrow> bool" where
  "has_bounds info =
     list_ex (\<lambda>bound. bound \<noteq> None)
       [gt info, ge info, lt info, le info, multiple_of info, min_items info, max_items info]"

text \<open>
  pydantic validates every field definition when it builds a model class
  (\<open>ModelField.infer\<close>), in the order of the definitions. It rejects a definition that
  has both a default and a default factory, and one whose numeric or item bounds it
  cannot enforce: on a type that is constrained already it applies no bound, so a
  declaration that sets one is refused. The error of the first rejected definition, if
  any; the second message leaves out the names of the field and of the bounds.
\<close>

fun field_error :: "(string \<times> pytype \<times> FieldInfo) list \<Rightarrow> error option" where
  "field_error [] = None"
| "field_error ((k, t, info) # defs) =
     (if default info \<noteq> Undefined \<and> default_factory info \<noteq> None
      then Some (ValueError ''cannot specify both default and default_factory'')
      else if has_bounds info \<and> (case t of Constrained _ \<Rightarrow> True | Plain _ \<Rightarrow> False)
      then Some (ValueError ''the following field constraints are set but not enforced'')
      else field_error defs)"

text \<open>
  The type pydantic gives a field: the constrained type when the declaration sets a
  numeric or item bound, the annotated type otherwise.
\<close>

definition field_type :: "pytype \<Rightarrow> FieldInfo \<Rightarrow> pytype" where
  "field_type t info =
     (if has_bounds info then (case t of Plain txt \<Rightarrow> Constrained txt | Constrained txt \<Rightarrow> t)
      else t)"

text \<open>
  \<open>create_model(name, **field_definitions, __base__=base)\<close>: a subclass of \<open>base\<close>
  whose fields are those of \<open>base\<close> updated with the given definitions, each a pair
  of a type and a field declaration.
\<close>

definition create_model ::
  "string \<Rightarrow> (string \<times> pytype \<times> FieldInfo) list \<Rightarrow> request_model \<Rightarrow> error + request_model" where
  "create_model name field_definitions base =
     (case field_error field_definitions of
        Some e \<Rightarrow> Inl e
      | None \<Rightarrow> Inr
          \<lparr>cls_name = name,
           bases = [cls_name base],
           mro = name # mro base,
           is_APIRequest = is_APIRequest base,
           is_BaseModel = is_BaseModel base,
           attrs_attrs = attrs_attrs base,
           class_vars = class_vars base,
           model_fields =
             fold (\<lambda>(k, v). AList.update k
                     \<lparr>field_info = snd v, outer_type = field_type (fst v) (snd v)\<rparr>)
               field_definitions (model_fields base)\<rparr>)"

section \<open>Request model composition (api/models.py)\<close>

text \<open>
  Modelled from the spec: the class \<open>ApiExtension\<close> (\<open>stac_fastapi.types.extension\<close>)
  is not among the sources. An extension declares a conformance-class list, a mapping
  from the HTTP method to the request model it contributes, and an optional JSON-schema
  reference. \<open>request_models\<close> is that mapping; \<open>type_name\<close> is the name of the
  extension's type (\<open>type(ext).__name__\<close>); \<open>ext_conformance_classes\<close> is the
  attribute \<open>conformance_classes\<close>, a reference to a list object, or \<open>None\<close> when
  the instance has no such attribute (the case \<open>getattr\<close> covers with its default).
\<close>

type_synonym ref = nat

record ApiExtension =
  type_name :: string
  ext_conformance_classes :: "ref option"
  schema_href :: "string option"
  request_models :: "string \<Rightarrow> request_model option"

definition get_request_model :: "ApiExtension \<Rightarrow> string \<Rightarrow> request_model option" where
  "get_request_model extension verb = request_models extension verb"

text \<open>
  The body parameter \<open>create_request_model\<close> derives from the declaration
  \<open>info\<close> (the source's \<open>field_info\<close>) of a field: the positional default is \<open>None\<close> when the field has no
  default, and every keyword argument is the attribute of the same name.
\<close>

definition body_param :: "FieldInfo \<Rightarrow> FieldInfo" where
  "body_param info =
     Body (if default info = Undefined then PyNone else default info)
       \<lparr>default_factory = default_factory info,
        field_alias = field_alias info,
        alias_priority = alias_priority info,
        title = title info,
        description = description info,
        const = const info,
        gt = gt info,
        ge = ge info,
        lt = lt info,
        le = le info,
        multiple_of = multiple_of info,
        min_items = min_items info,
        max_items = max_items info,
        min_length = min_length info,
        max_length = max_length info,
        regex = regex info,
        extra = extra info\<rparr>"

text \<open>
  The two nested iterations of the POST branch: \<open>fields[k] = (v.outer_type_, body)\<close> for
  every item of every model's \<open>__fields__\<close> (the dictionary \<open>fields\<close> is
  \<open>field_defs\<close> here). A key that is already in the dictionary
  keeps its place and takes the new value.
\<close>

definition add_model_fields ::
  "request_model \<Rightarrow> (string \<times> pytype \<times> FieldInfo) list \<Rightarrow> (string \<times> pytype \<times> FieldInfo) list" where
  "add_model_fields model field_defs =
     fold (\<lambda>(k, v). AList.update k (outer_type v, body_param (field_info v)))
       (model_fields model) field_defs"

text \<open>
  \<open>models = [base_model] + extension_models + mixins\<close>, where \<open>extension_models\<close>
  holds the model of every extension that has one for the request type.
\<close>

definition request_models_list ::
  "request_model \<Rightarrow> ApiExtension list option \<Rightarrow> request_model list option \<Rightarrow> string
   \<Rightarrow> request_model list" where
  "request_models_list base_model extensions mixins request_type =
     (let extension_models =
            List.map_filter (\<lambda>extension. get_request_model extension request_type)
              (case extensions of None \<Rightarrow> [] | Some es \<Rightarrow> es);
          mixins = (case mixins of None \<Rightarrow> [] | Some ms \<Rightarrow> ms)
      in [base_model] @ extension_models @ mixins)"

definition create_request_model ::
  "string \<Rightarrow> request_model \<Rightarrow> ApiExtension list option \<Rightarrow> request_model list option \<Rightarrow> string
   \<Rightarrow> error + request_model" where
  "create_request_model model_name base_model extensions mixins request_type =
     (let models = request_models_list base_model extensions mixins request_type
      in if list_all is_APIRequest models then make_class model_name [] [] models
         else if list_all is_BaseModel models then
           create_model model_name (fold add_model_fields models []) base_model
         else Inl (TypeError ''Mixed Request Model types. Check extension request types.''))"

definition create_get_request_model :: "ApiExtension list option \<Rightarrow> request_model \<Rightarrow> error + request_model" where
  "create_get_request_model extensions base_model =
     create_request_model ''SearchGetRequest'' base_model extensions None ''GET''"

definition create_post_request_model :: "ApiExtension list option \<Rightarrow> request_model \<Rightarrow> error + request_model" where
  "create_post_request_model extensions base_model =
     create_request_model ''SearchPostRequest'' base_model extensions None ''POST''"

subsection \<open>The classes the sources declare\<close>

text \<open>
  \<open>APIRequest\<close> (\<open>stac_fastapi.types.search\<close>) is an attrs class without attributes,
  \<open>BaseModel\<close> is pydantic's base class without fields.
\<close>

definition APIRequest :: request_model where
  "APIRequest =
     \<lparr>cls_name = ''APIRequest'', bases = [''ABC''], mro = [''APIRequest'', ''ABC'', ''object''],
      is_APIRequest = True, is_BaseModel = False,
      attrs_attrs = [], class_vars = [], model_fields = []\<rparr>"

definition BaseModel :: request_model where
  "BaseModel =
     \<lparr>cls_name = ''BaseModel'', bases = [''Representation''],
      mro = [''BaseModel'', ''Representation'', ''object''], is_APIRequest = False,
      is_BaseModel = True, attrs_attrs = [], class_vars = [], model_fields = []\<rparr>"

text \<open>
  A class statement \<open>class name(base): ...\<close> for a pydantic model: each annotated
  assignment is a field definition.
\<close>

definition pydantic_class ::
  "string \<Rightarrow> request_model \<Rightarrow> (string \<times> pytype \<times> FieldInfo) list \<Rightarrow> error + request_model" where
  "pydantic_class name base field_definitions = create_model name field_definitions base"

text \<open>
  The module \<open>stac_fastapi.api.descriptions\<close> is not among the sources: its string
  constants are a parameter.
\<close>

record descriptions =
  COLLECTION_ID :: string
  ITEM_ID :: string
  CRS :: string
  LIMIT :: string
  BBOX :: string
  BBOX_CRS :: string
  DATETIME :: string
  FILTER :: string
  FILTER_LANG :: string
  FILTER_CRS :: string
  PAGING_TOKEN :: string

definition CRS84 :: string where
  "CRS84 = ''http://www.opengis.net/def/crs/OGC/1.3/CRS84''"

text \<open>A class statement whose bases were built without error.\<close>

definition class_from ::
  "error + request_model \<Rightarrow> (request_model \<Rightarrow> error + request_model) \<Rightarrow> error + request_model" where
  "class_from base body = (case base of Inl e \<Rightarrow> Inl e | Inr b \<Rightarrow> body b)"

definition CollectionUri :: "descriptions \<Rightarrow> error + request_model" where
  "CollectionUri d =
     make_class ''CollectionUri''
       [attr_ib ''collection_id'' (Some (Path Ellipsis None (Some (COLLECTION_ID d)))) None]
       [] [APIRequest]"

definition ItemUri :: "descriptions \<Rightarrow> error + request_model" where
  "ItemUri d =
     class_from (CollectionUri d) (\<lambda>base.
       make_class ''ItemUri''
         [attr_ib ''item_id'' (Some (Path Ellipsis None (Some (ITEM_ID d)))) None,
          attr_ib ''crs'' (Some (Query (PyStr CRS84) None (Some (CRS d)))) None]
         [] [base])"

definition EmptyRequest :: "error + request_model" where
  "EmptyRequest = make_class ''EmptyRequest'' [] [] [APIRequest]"

definition ItemCollectionUri :: "descriptions \<Rightarrow> error + request_model" where
  "ItemCollectionUri d =
     class_from (CollectionUri d) (\<lambda>base.
       make_class ''ItemCollectionUri''
         [attr_ib ''limit'' (Some (Query (PyInt 10) None (Some (LIMIT d)))) None,
          attr_ib ''bbox'' (Some (Query PyNone None (Some (BBOX d)))) (Some ''str2bbox''),
          attr_ib ''bbox_crs'' (Some (Query (PyStr CRS84) (Some ''bbox-crs'') (Some (BBOX_CRS d)))) None,
          attr_ib ''datetime'' (Some (Query PyNone None (Some (DATETIME d)))) (Some ''str_to_interval''),
          attr_ib ''crs'' (Some (Query (PyStr CRS84) None (Some (CRS d)))) None,
          attr_ib ''filter'' (Some (Query PyNone None (Some (FILTER d)))) None,
          attr_ib ''filter_lang'' (Some (Query (PyStr ''cql-json'') (Some ''filter-lang'') (Some (FILTER_LANG d)))) None,
          attr_ib ''filter_crs'' (Some (Query (PyStr CRS84) (Some ''filter-crs'') (Some (FILTER_CRS d)))) None]
         [] [base])"

definition plain_field :: "pyval \<Rightarrow> FieldInfo" where
  "plain_field d = FieldInfo_init FieldKind d None None"


definition GETTokenPagination :: "descriptions \<Rightarrow> error + request_model" where
  "GETTokenPagination d =
     make_class ''GETTokenPagination''
       [attr_ib ''pt'' (Some (Query PyNone None (Some (PAGING_TOKEN d)))) None]
       [] [APIRequest]"

definition POSTPagination :: "error + request_model" where
  "POSTPagination =
     pydantic_class ''POSTPagination'' BaseModel [(''page'', Plain ''Optional[str]'', plain_field PyNone)]"

definition GETPagination :: "error + request_model" where
  "GETPagination =
     make_class ''GETPagination'' [attr_ib ''page'' (Some (Val PyNone)) None] [] [APIRequest]"


definition CrsExtensionPostRequest :: "error + request_model" where
  "CrsExtensionPostRequest =
     pydantic_class ''CrsExtensionPostRequest'' BaseModel
       [(''crs'', Plain ''Optional[crs_url]'', plain_field (PyStr CRS84)),
        (''bbox_crs'', Plain ''Optional[crs_url]'', FieldInfo_init FieldKind (PyStr CRS84) (Some ''bbox-crs'') None)]"



subsection \<open>Reading the composed models\<close>


text \<open>
  FastAPI reads the attributes of an attrs request model as the parameters of the
  route: a parameter is called by the alias of its declaration when it has one and by
  the attribute's name otherwise, and its default is the default of the declaration.
\<close>

fun declared_default :: "pyobj option \<Rightarrow> pyval option" where
  "declared_default None = None"
| "declared_default (Some (Val v)) = Some v"
| "declared_default (Some (Param info)) = Some (default info)"

fun declared_alias :: "pyobj option \<Rightarrow> string option" where
  "declared_alias (Some (Param info)) = field_alias info"
| "declared_alias _ = None"

definition parameter_name :: "Attribute \<Rightarrow> string" where
  "parameter_name a = (case declared_alias (attr_default a) of Some al \<Rightarrow> al | None \<Rightarrow> attr_name a)"

definition parameters :: "request_model \<Rightarrow> (string \<times> pyval option) list" where
  "parameters m = map (\<lambda>a. (parameter_name a, declared_default (attr_default a))) (attrs_attrs m)"

section \<open>Core client (types/core.py)\<close>

subsection \<open>List objects and the store\<close>

text \<open>
  Python lists are objects: \<open>extend\<close> changes the object in place, and two names may
  denote the same object. The lists of conformance-class URIs therefore live in a store,
  a function from references to list contents.
\<close>

type_synonym store = "ref \<Rightarrow> string list"

text \<open>
  The module-level list \<open>BASE_CONFORMANCE_CLASSES\<close> (imported from
  \<open>stac_fastapi.types.conformance\<close>) is one object, at a fixed reference.
\<close>

definition BASE_CONFORMANCE_CLASSES :: ref where
  "BASE_CONFORMANCE_CLASSES = 0"

text \<open>
  \<open>BaseCoreClient\<close>: the attribute \<open>base_conformance_classes\<close> is a reference to a
  list object and \<open>extensions\<close> is the list of registered extensions.
\<close>

record BaseCoreClient =
  base_conformance_classes :: ref
  extensions :: "ApiExtension list"

text \<open>
  The attrs defaults of the class: \<open>factory=lambda: BASE_CONFORMANCE_CLASSES\<close> hands
  out the module-level list object itself (not a copy).
\<close>

definition BaseCoreClient_init :: "ApiExtension list \<Rightarrow> BaseCoreClient" where
  "BaseCoreClient_init exts =
     \<lparr>base_conformance_classes = BASE_CONFORMANCE_CLASSES, extensions = exts\<rparr>"

text \<open>An extension that contributes conformance classes and no request model.\<close>

definition conformance_extension :: "string \<Rightarrow> ref option \<Rightarrow> ApiExtension" where
  "conformance_extension name classes =
     \<lparr>type_name = name, ext_conformance_classes = classes, schema_href = None,
      request_models = (\<lambda>verb. None)\<rparr>"

text \<open>\<open>getattr(extension, "conformance_classes", [])\<close>, read in store \<open>h\<close>.\<close>

definition extension_classes :: "store \<Rightarrow> ApiExtension \<Rightarrow> string list" where
  "extension_classes h ext =
     (case ext_conformance_classes ext of None \<Rightarrow> [] | Some r \<Rightarrow> h r)"

subsection \<open>conformance_classes\<close>

text \<open>
  \<open>list(set(xs))\<close>: the elements of \<open>xs\<close>, each once, in the iteration order of the
  set, which depends on the hashes of the strings. The order is a parameter
  \<open>order\<close>, a rearrangement applied to the duplicate-free list.
\<close>

definition list_of_set :: "(string list \<Rightarrow> string list) \<Rightarrow> string list \<Rightarrow> string list" where
  "list_of_set order xs = order (remdups xs)"

text \<open>
  The loop of \<open>conformance_classes\<close> extends a local copy of the base list with the
  classes of each extension in turn.
\<close>

fun extend_local :: "store \<Rightarrow> string list \<Rightarrow> ApiExtension list \<Rightarrow> string list" where
  "extend_local h acc [] = acc"
| "extend_local h acc (ext # exts) = extend_local h (acc @ extension_classes h ext) exts"

text \<open>
  \<open>conformance_classes\<close> copies the base list (\<open>.copy()\<close>), so the store it returns is
  the store it was given.
\<close>

definition conformance_classes ::
  "(string list \<Rightarrow> string list) \<Rightarrow> BaseCoreClient \<Rightarrow> store \<Rightarrow> string list \<times> store" where
  "conformance_classes order self h =
     (let base_conformance_classes_copy = h (base_conformance_classes self);
          extended = extend_local h base_conformance_classes_copy (extensions self)
      in (list_of_set order extended, h))"

subsection \<open>extension_is_enabled and get_extension\<close>

definition extension_is_enabled :: "BaseCoreClient \<Rightarrow> string \<Rightarrow> bool" where
  "extension_is_enabled self extension =
     list_ex (\<lambda>b. b) (map (\<lambda>ext. type_name ext = extension) (extensions self))"

definition get_extension :: "BaseCoreClient \<Rightarrow> string \<Rightarrow> error + ApiExtension" where
  "get_extension self extension =
     (let exts = filter (\<lambda>ext. type_name ext = extension) (extensions self)
      in case exts of
           ext # _ \<Rightarrow> Inr ext
         | [] \<Rightarrow> Inl (NotFoundError (''Extenson '' @ extension @ '' not found'')))"

subsection \<open>list_conformance_classes\<close>

text \<open>
  \<open>list_conformance_classes\<close> binds \<open>base_conformance\<close> to the module-level list
  object itself and extends that object in place, once per extension. It returns the
  object; the model returns its reference, its contents and the new store.
\<close>

fun extend_in_place :: "ref \<Rightarrow> ApiExtension list \<Rightarrow> store \<Rightarrow> store" where
  "extend_in_place r [] h = h"
| "extend_in_place r (ext # exts) h =
     extend_in_place r exts (h(r := h r @ extension_classes h ext))"

definition list_conformance_classes ::
  "BaseCoreClient \<Rightarrow> store \<Rightarrow> (ref \<times> string list) \<times> store" where
  "list_conformance_classes self h =
     (let base_conformance = BASE_CONFORMANCE_CLASSES;
          h' = extend_in_place base_conformance (extensions self) h
      in ((base_conformance, h' base_conformance), h'))"

section \<open>Proxy headers (api/middleware.py)\<close>

text \<open>
  Modelled from the spec: the class \<open>ProxyHeaderMiddleware\<close>
  (\<open>stac_fastapi.api.middleware\<close>) is not among the sources; its tests are
  (api/tests/test_middleware.py). A request scope holds the scheme, the server (host and
  port) and the header list of the request; header names and values are byte strings.
\<close>

type_synonym header = "string \<times> string"

record scope =
  scheme :: string
  server :: "string \<times> int"
  headers :: "header list"

text \<open>
  Modelled from the spec: header names are compared without regard to case (the helper
  that does so is part of the missing middleware). \<open>lower_char\<close> maps an ASCII capital
  to its small letter.
\<close>

definition lower_char :: "char \<Rightarrow> char" where
  "lower_char c =
     (case map_of (zip ''ABCDEFGHIJKLMNOPQRSTUVWXYZ'' ''abcdefghijklmnopqrstuvwxyz'') c of
        Some l \<Rightarrow> l | None \<Rightarrow> c)"

text \<open>
  Modelled from the spec: a header name in lower case, for the comparison of names.
\<close>

definition lower :: "string \<Rightarrow> string" where
  "lower s = map lower_char s"

text \<open>
  Modelled from the spec: "get a header's raw value by case-insensitive name from the
  header list (first match; null if absent)", on the header list.
\<close>

fun header_value :: "header list \<Rightarrow> string \<Rightarrow> string option" where
  "header_value [] name = None"
| "header_value ((k, v) # hs) name =
     (if lower k = lower name then Some v else header_value hs name)"

text \<open>
  Modelled from the spec: the missing method \<open>_get_header_value_by_name(scope, name)\<close>,
  the lookup above on the headers of the scope.
\<close>

definition get_header_value_by_name :: "scope \<Rightarrow> string \<Rightarrow> string option" where
  "get_header_value_by_name s header_name = header_value (headers s) header_name"

text \<open>
  Modelled from the spec: "return a new header list with one named header's value
  replaced (or appended if absent), preserving the order and all other headers
  unchanged", on the header list; the named header is the first one the lookup finds.
\<close>

fun replace_value :: "header list \<Rightarrow> string \<Rightarrow> string \<Rightarrow> header list" where
  "replace_value [] name new_value = [(name, new_value)]"
| "replace_value ((k, v) # hs) name new_value =
     (if lower k = lower name then (k, new_value) # hs
      else (k, v) # replace_value hs name new_value)"

text \<open>
  Modelled from the spec: the missing method
  \<open>_replace_header_value_by_name(scope, name, value)\<close>, which returns the new header
  list.
\<close>

definition replace_header_value_by_name :: "scope \<Rightarrow> string \<Rightarrow> string \<Rightarrow> header list" where
  "replace_header_value_by_name s header_name new_value =
     replace_value (headers s) header_name new_value"

text \<open>
  Modelled from the spec: the parsing of the missing resolver. \<open>split_on\<close> cuts a string
  at every separator, as Python's \<open>str.split(sep)\<close> does.
\<close>

fun split_on :: "char \<Rightarrow> string \<Rightarrow> string list" where
  "split_on sep [] = [[]]"
| "split_on sep (c # cs) =
     (if c = sep then [] # split_on sep cs
      else (case split_on sep cs of
              [] \<Rightarrow> [[c]]
            | part # parts \<Rightarrow> (c # part) # parts))"

text \<open>
  Modelled from the spec: "if \<open>Forwarded\<close> is present and contains \<open>host=host:port\<close>,
  split on the last colon". \<open>rsplit_last\<close> gives what stands before and after the last
  separator, or nothing when there is none.
\<close>

definition rsplit_last :: "char \<Rightarrow> string \<Rightarrow> (string \<times> string) option" where
  "rsplit_last sep s =
     (if sep \<in> set s then
        (let after = rev (takeWhile (\<lambda>c. c \<noteq> sep) (rev s))
         in Some (take (length s - length after - 1) s, after))
      else None)"

text \<open>
  Modelled from the spec: one \<open>key=value\<close> directive of a \<open>Forwarded\<close> header, cut at
  its first equals sign; a part without one is no directive.
\<close>

definition directive :: "string \<Rightarrow> (string \<times> string) option" where
  "directive part =
     (if CHR ''='' \<in> set part then
        (let key = takeWhile (\<lambda>c. c \<noteq> CHR ''='') part
         in Some (key, drop (length key + 1) part))
      else None)"

text \<open>
  Modelled from the spec: the directives of "a single structured \<open>Forwarded\<close> header",
  which are separated by semicolons.
\<close>

definition forwarded_directives :: "string \<Rightarrow> (string \<times> string) list" where
  "forwarded_directives forwarded = List.map_filter directive (split_on CHR '';'' forwarded)"

text \<open>
  Modelled from the spec: the value of a decimal digit, for "parse as an integer".
\<close>

definition digit :: "char \<Rightarrow> nat option" where
  "digit c = map_of (zip ''0123456789'' [0, 1, 2, 3, 4, 5, 6, 7, 8, 9]) c"

text \<open>
  Modelled from the spec: the number a string of decimal digits denotes.
\<close>

fun parse_digits :: "string \<Rightarrow> nat \<Rightarrow> nat option" where
  "parse_digits [] acc = Some acc"
| "parse_digits (c # cs) acc =
     (case digit c of None \<Rightarrow> None | Some d \<Rightarrow> parse_digits cs (10 * acc + d))"

text \<open>
  Modelled from the spec: "parse as an integer": a port segment parses when it is a
  non-empty string of decimal digits.
\<close>

definition parse_int :: "string \<Rightarrow> int option" where
  "parse_int s = (if s = [] then None else map_option int (parse_digits s 0))"

text \<open>
  Modelled from the spec: the request's own host and port. "If a \<open>Host\<close> header is
  present (and no forwarding headers apply) and it contains \<open>host:port\<close>, split and use
  that port"; a bare \<open>Host\<close> header supplies no port; without a \<open>Host\<close> header they
  are the server's.
\<close>

definition request_host_port :: "scope \<Rightarrow> string \<times> int option" where
  "request_host_port s =
     (case get_header_value_by_name s ''host'' of
        None \<Rightarrow> (fst (server s), Some (snd (server s)))
      | Some header_host \<Rightarrow>
          (case rsplit_last CHR '':'' header_host of
             None \<Rightarrow> (header_host, None)
           | Some (h, p) \<Rightarrow> (h, parse_int p)))"

text \<open>
  Modelled from the spec: the host and port of a \<open>host=\<close> directive: "split on the last
  colon; if the port segment fails to parse as an integer, fall back to the original
  request's port, not the forwarded host's literal port segment, and still accept the
  forwarded host name".
\<close>

definition forwarded_host_port :: "scope \<Rightarrow> string \<Rightarrow> string \<times> int option" where
  "forwarded_host_port s host_value =
     (case rsplit_last CHR '':'' host_value of
        None \<Rightarrow> (host_value, Some (snd (server s)))
      | Some (h, p) \<Rightarrow>
          (h, case parse_int p of Some n \<Rightarrow> Some n | None \<Rightarrow> Some (snd (server s))))"

text \<open>
  Modelled from the spec: the missing method \<open>_get_forwarded_url_parts(scope)\<close>, which
  returns scheme, host, port and path prefix. "Precedence (highest first): a single
  structured \<open>Forwarded\<close> header's \<open>proto=\<close>/\<open>host=\<close> directives; then the discrete
  \<open>X-Forwarded-Proto\<close>, \<open>X-Forwarded-Host\<close>, \<open>X-Forwarded-Port\<close>,
  \<open>X-Forwarded-Prefix\<close> headers; then the request's own scheme/host/port". "When
  multiple forwarding header families are simultaneously present, \<open>Forwarded\<close>
  strictly wins over the \<open>X-Forwarded-*\<close> family, which wins over bare \<open>Host\<close>": with
  a \<open>Forwarded\<close> header no \<open>X-Forwarded-*\<close> header is read, the path prefix is null,
  and what the header's directives do not give is the request's own scheme and
  server. Without it, "\<open>X-Forwarded-Prefix\<close>, if present, is returned verbatim as the
  path prefix; otherwise null."
\<close>

definition get_forwarded_url_parts :: "scope \<Rightarrow> string \<times> string \<times> int option \<times> string option" where
  "get_forwarded_url_parts s =
     (case get_header_value_by_name s ''forwarded'' of
        Some forwarded \<Rightarrow>
          (let ds = forwarded_directives forwarded;
               proto = (case map_of ds ''proto'' of Some p \<Rightarrow> p | None \<Rightarrow> scheme s);
               (domain, port) =
                 (case map_of ds ''host'' of
                    None \<Rightarrow> (fst (server s), Some (snd (server s)))
                  | Some host_value \<Rightarrow> forwarded_host_port s host_value)
           in (proto, domain, port, None))
      | None \<Rightarrow>
          (let (host0, port0) = request_host_port s;
               proto = (case get_header_value_by_name s ''x-forwarded-proto'' of
                          Some p \<Rightarrow> p | None \<Rightarrow> scheme s);
               domain = (case get_header_value_by_name s ''x-forwarded-host'' of
                           Some h \<Rightarrow> h | None \<Rightarrow> host0);
               port = (case get_header_value_by_name s ''x-forwarded-port'' of
                         Some p \<Rightarrow> (case parse_int p of Some n \<Rightarrow> Some n | None \<Rightarrow> port0)
                       | None \<Rightarrow> port0);
               prefix = get_header_value_by_name s ''x-forwarded-prefix''
           in (proto, domain, port, prefix)))"

section \<open>Properties of the core client\<close>

lemma set_extend_local:
  "set (extend_local h acc exts) = set acc \<union> (\<Union>ext \<in> set exts. set (extension_classes h ext))"
  by (induction exts arbitrary: acc) auto

lemma filter_case_find:
  "(case filter P xs of [] \<Rightarrow> a | x # _ \<Rightarrow> f x) =
   (case find P xs of None \<Rightarrow> a | Some x \<Rightarrow> f x)"
  by (induction xs) auto

lemma list_of_set_perm:
  assumes "mset (order (remdups xs)) = mset (remdups xs)"
  shows "set (list_of_set order xs) = set xs" and "distinct (list_of_set order xs)"
proof -
  from assms have "set (order (remdups xs)) = set (remdups xs)"
    by (rule mset_eq_setD)
  then show "set (list_of_set order xs) = set xs"
    by (simp add: list_of_set_def)
  have "distinct (remdups xs)" by simp
  with assms show "distinct (list_of_set order xs)"
    by (simp add: list_of_set_def mset_eq_imp_distinct_iff)
qed

text \<open>
  C7. For every core client, whatever its base conformance-class list and its enabled
  extensions, and whatever order the set is iterated in, \<open>conformance_classes()\<close> returns
  a list whose members are exactly the URIs of the base list and of every extension's
  declared classes, and no URI occurs in it twice.
\<close>

theorem conformance_classes_union_distinct:
  assumes "\<And>ys. mset (order ys) = mset ys"
  shows "set (fst (conformance_classes order self h)) =
           set (h (base_conformance_classes self)) \<union>
           (\<Union>ext \<in> set (extensions self). set (extension_classes h ext))
         \<and> distinct (fst (conformance_classes order self h))"
  using list_of_set_perm [of order, OF assms]
  by (simp add: conformance_classes_def Let_def set_extend_local)

theorem conformance_classes_union_distinct_witness:
  "(\<forall>ys :: string list. mset (rev ys) = mset ys) \<and>
   set (fst (conformance_classes rev
          \<lparr>base_conformance_classes = 0,
           extensions = [conformance_extension ''FilterExtension'' (Some 1),
                         conformance_extension ''CrsExtension'' (Some 2)]\<rparr>
          ((\<lambda>_. [])(0 := [''core'', ''ogc''], 1 := [''filter'', ''ogc''], 2 := [''filter''])))) =
     {''core'', ''ogc'', ''filter''} \<and>
   distinct (fst (conformance_classes rev
          \<lparr>base_conformance_classes = 0,
           extensions = [conformance_extension ''FilterExtension'' (Some 1),
                         conformance_extension ''CrsExtension'' (Some 2)]\<rparr>
          ((\<lambda>_. [])(0 := [''core'', ''ogc''], 1 := [''filter'', ''ogc''], 2 := [''filter'']))))"
  using conformance_classes_union_distinct [of rev
          "\<lparr>base_conformance_classes = 0,
           extensions = [conformance_extension ''FilterExtension'' (Some 1),
                         conformance_extension ''CrsExtension'' (Some 2)]\<rparr>"
          "((\<lambda>_. [])(0 := [''core'', ''ogc''], 1 := [''filter'', ''ogc''], 2 := [''filter'']))"]
  by (auto simp: extension_classes_def conformance_extension_def)

text \<open>
  C8. \<open>extension_is_enabled(name)\<close> is true exactly when some element of the client's
  extension list has a type of that name; \<open>get_extension(name)\<close> returns the first such
  element in list order (which is what \<open>find\<close> computes) and raises \<open>NotFoundError\<close>
  when there is none.
\<close>

theorem extension_lookup_by_type_name:
  "(extension_is_enabled self extension \<longleftrightarrow>
      (\<exists>ext \<in> set (extensions self). type_name ext = extension)) \<and>
   get_extension self extension =
     (case find (\<lambda>ext. type_name ext = extension) (extensions self) of
        Some ext \<Rightarrow> Inr ext
      | None \<Rightarrow> Inl (NotFoundError (''Extenson '' @ extension @ '' not found'')))"
  unfolding get_extension_def Let_def extension_is_enabled_def
  by (simp add: filter_case_find list_ex_iff)

theorem extension_lookup_by_type_name_witness:
  "extension_is_enabled
     \<lparr>base_conformance_classes = 0,
      extensions = [conformance_extension ''CrsExtension'' (Some 2),
                    conformance_extension ''FilterExtension'' (Some 1),
                    conformance_extension ''FilterExtension'' None]\<rparr>
     ''FilterExtension'' \<and>
   get_extension
     \<lparr>base_conformance_classes = 0,
      extensions = [conformance_extension ''CrsExtension'' (Some 2),
                    conformance_extension ''FilterExtension'' (Some 1),
                    conformance_extension ''FilterExtension'' None]\<rparr>
     ''FilterExtension'' =
   Inr (conformance_extension ''FilterExtension'' (Some 1))"
  using extension_lookup_by_type_name [of
     "\<lparr>base_conformance_classes = 0,
      extensions = [conformance_extension ''CrsExtension'' (Some 2),
                    conformance_extension ''FilterExtension'' (Some 1),
                    conformance_extension ''FilterExtension'' None]\<rparr>"
     "''FilterExtension''"]
  by (simp add: conformance_extension_def)

lemma conformance_classes_frame:
  "snd (conformance_classes order self h) = h"
  by (simp add: conformance_classes_def Let_def)

text \<open>
  C9. A client built with the attrs defaults and one extension declaring the class
  \<open>filter\<close>, in a store where the module-level list holds \<open>core\<close>: the first call of
  \<open>list_conformance_classes()\<close> changes the module-level list, which is also the client's
  base list, and the second call returns a longer list than the first.
\<close>

theorem list_conformance_classes_extends_module_list:
  "(let self = BaseCoreClient_init
                 [conformance_extension ''FilterExtension'' (Some 1)];
        h0 = (\<lambda>_. [])(BASE_CONFORMANCE_CLASSES := [''core''], 1 := [''filter'']);
        (r1, h1) = list_conformance_classes self h0;
        (r2, h2) = list_conformance_classes self h1
    in h0 BASE_CONFORMANCE_CLASSES = [''core''] \<and>
       h1 BASE_CONFORMANCE_CLASSES = [''core'', ''filter''] \<and>
       h1 (base_conformance_classes self) = [''core'', ''filter''] \<and>
       snd r1 = [''core'', ''filter''] \<and>
       snd r2 = [''core'', ''filter'', ''filter''] \<and>
       h2 BASE_CONFORMANCE_CLASSES = [''core'', ''filter'', ''filter''])"
  by (simp add: list_conformance_classes_def BaseCoreClient_init_def
      BASE_CONFORMANCE_CLASSES_def extension_classes_def conformance_extension_def Let_def)

section \<open>Properties of request model composition\<close>

subsection \<open>The declared classes, evaluated\<close>

lemmas mro_defs = method_resolution_order_def c3_merge.simps c3_candidate_def

lemma GETPagination_value:
  "GETPagination = Inr \<lparr>cls_name = ''GETPagination'', bases = [''APIRequest''],
      mro = [''GETPagination'', ''APIRequest'', ''ABC'', ''object''],
      is_APIRequest = True, is_BaseModel = False,
      attrs_attrs = [attr_ib ''page'' (Some (Val PyNone)) None],
      class_vars = [], model_fields = []\<rparr>"
  by (simp add: GETPagination_def make_class_def mro_defs collect_base_attrs_def APIRequest_def attr_ib_def)

lemma CrsExtensionPostRequest_value:
  "CrsExtensionPostRequest = Inr \<lparr>cls_name = ''CrsExtensionPostRequest'', bases = [''BaseModel''],
      mro = [''CrsExtensionPostRequest'', ''BaseModel'', ''Representation'', ''object''],
      is_APIRequest = False, is_BaseModel = True,
      attrs_attrs = [], class_vars = [],
      model_fields =
        [(''crs'', \<lparr>field_info = plain_field (PyStr CRS84), outer_type = Plain ''Optional[crs_url]''\<rparr>),
         (''bbox_crs'', \<lparr>field_info = FieldInfo_init FieldKind (PyStr CRS84) (Some ''bbox-crs'') None,
                        outer_type = Plain ''Optional[crs_url]''\<rparr>)]\<rparr>"
  by (simp add: CrsExtensionPostRequest_def pydantic_class_def create_model_def field_type_def has_bounds_def BaseModel_def
      plain_field_def FieldInfo_init_def)





lemma CollectionUri_value:
  "CollectionUri d = Inr \<lparr>cls_name = ''CollectionUri'', bases = [''APIRequest''],
      mro = [''CollectionUri'', ''APIRequest'', ''ABC'', ''object''],
      is_APIRequest = True, is_BaseModel = False,
      attrs_attrs = [attr_ib ''collection_id'' (Some (Path Ellipsis None (Some (COLLECTION_ID d)))) None],
      class_vars = [], model_fields = []\<rparr>"
  by (simp add: CollectionUri_def make_class_def mro_defs collect_base_attrs_def APIRequest_def attr_ib_def)

subsection \<open>Mixed kinds\<close>

text \<open>
  C1. Whenever the list of models (the base model, the models the extensions contribute
  for the request type, and the mixins) holds a model of query-parameter kind (a subclass
  of \<open>APIRequest\<close> and not of \<open>BaseModel\<close>) and a model of body kind (a subclass of
  \<open>BaseModel\<close> and not of \<open>APIRequest\<close>), \<open>create_request_model\<close> raises the
  \<open>TypeError\<close> of its last line: it returns no composed model.
\<close>

theorem create_request_model_mixed_kinds:
  assumes "q \<in> set (request_models_list base_model exts mixins request_type)"
      and "is_APIRequest q" and "\<not> is_BaseModel q"
      and "b \<in> set (request_models_list base_model exts mixins request_type)"
      and "is_BaseModel b" and "\<not> is_APIRequest b"
  shows "create_request_model model_name base_model exts mixins request_type =
           Inl (TypeError ''Mixed Request Model types. Check extension request types.'')"
proof -
  let ?models = "request_models_list base_model exts mixins request_type"
  from assms have "\<not> list_all is_APIRequest ?models" and "\<not> list_all is_BaseModel ?models"
    by (auto simp: list_all_iff)
  then show ?thesis
    by (simp add: create_request_model_def Let_def)
qed

theorem create_request_model_mixed_kinds_witness:
  "projr GETPagination \<in> set (request_models_list (projr GETPagination)
      (Some [\<lparr>type_name = ''CrsExtension'', ext_conformance_classes = None, schema_href = None,
              request_models = (\<lambda>verb. Some (projr CrsExtensionPostRequest))\<rparr>]) None ''GET'') \<and>
   is_APIRequest (projr GETPagination) \<and> \<not> is_BaseModel (projr GETPagination) \<and>
   projr CrsExtensionPostRequest \<in> set (request_models_list (projr GETPagination)
      (Some [\<lparr>type_name = ''CrsExtension'', ext_conformance_classes = None, schema_href = None,
              request_models = (\<lambda>verb. Some (projr CrsExtensionPostRequest))\<rparr>]) None ''GET'') \<and>
   is_BaseModel (projr CrsExtensionPostRequest) \<and> \<not> is_APIRequest (projr CrsExtensionPostRequest) \<and>
   create_request_model ''SearchGetRequest'' (projr GETPagination)
      (Some [\<lparr>type_name = ''CrsExtension'', ext_conformance_classes = None, schema_href = None,
              request_models = (\<lambda>verb. Some (projr CrsExtensionPostRequest))\<rparr>]) None ''GET'' =
     Inl (TypeError ''Mixed Request Model types. Check extension request types.'')"
  using create_request_model_mixed_kinds [of "projr GETPagination" "projr GETPagination"
      "Some [\<lparr>type_name = ''CrsExtension'', ext_conformance_classes = None, schema_href = None,
              request_models = (\<lambda>verb. Some (projr CrsExtensionPostRequest))\<rparr>]" None "''GET''"
      "projr CrsExtensionPostRequest" "''SearchGetRequest''"]
  by (simp add: request_models_list_def get_request_model_def GETPagination_value
      CrsExtensionPostRequest_value)

subsection \<open>GET: composition by inheritance\<close>








text \<open>
  Two more lists of query-parameter kind with disjoint names for which no class is
  returned: a base listed before its own subclass, and a base listed twice.
\<close>

lemma create_request_model_get_base_before_subclass:
  "create_request_model ''SearchGetRequest'' APIRequest None (Some [projr EmptyRequest]) ''GET'' =
     Inl (TypeError ''Cannot create a consistent method resolution order (MRO) for bases'')"
  "create_request_model ''SearchGetRequest'' (projr EmptyRequest) None (Some [projr EmptyRequest]) ''GET'' =
     Inl (TypeError ''duplicate base class'')"
  by (simp_all add: create_request_model_def request_models_list_def EmptyRequest_def
      make_class_def mro_defs collect_base_attrs_def APIRequest_def)

text \<open>
  Distinct direct subclasses of one parent have a consistent order: the classes in list
  order, then the parent's own order.
\<close>

lemma c3_merge_filter: "c3_merge (filter (\<lambda>s. s \<noteq> []) seqs) = c3_merge seqs"
  by (subst (1 2) c3_merge.simps) simp

lemma find_append_None: "find P xs = None \<Longrightarrow> find P (xs @ ys) = find P ys"
  by (induction xs) (auto split: if_splits)

lemma c3_merge_replicate:
  "distinct common \<Longrightarrow> 0 < j \<Longrightarrow> c3_merge (replicate j common) = Some common"
proof (induction common)
  case Nil
  then show ?case by (subst c3_merge.simps) simp
next
  case (Cons c cs)
  have cand: "c3_candidate (replicate j (c # cs)) = Some c"
    using Cons.prems by (cases j) (auto simp: c3_candidate_def list_all_iff)
  have "c3_merge (replicate j (c # cs)) = map_option ((#) c) (c3_merge (replicate j cs))"
    using Cons.prems by (subst c3_merge.simps) (simp add: cand Let_def map_replicate)
  with Cons show ?case by simp
qed

lemma c3_merge_siblings_aux:
  assumes "distinct ns" and "set ns \<inter> set common = {}" and "distinct common"
      and "0 < j \<or> ns \<noteq> []"
  shows "c3_merge (replicate j common @ map (\<lambda>n. n # common) ns @ [ns]) = Some (ns @ common)"
  using assms
proof (induction ns arbitrary: j)
  case Nil
  then have "0 < j" by simp
  have "c3_merge (replicate j common @ [[]]) = c3_merge (filter (\<lambda>s. s \<noteq> []) (replicate j common @ [[]]))"
    by (simp only: c3_merge_filter)
  also have "\<dots> = c3_merge (filter (\<lambda>s. s \<noteq> []) (replicate j common))"
    by simp
  also have "\<dots> = c3_merge (replicate j common)"
    by (simp only: c3_merge_filter)
  finally show ?case
    using Nil \<open>0 < j\<close> by (simp add: c3_merge_replicate)
next
  case (Cons n ns)
  let ?seqs = "replicate j common @ map (\<lambda>n. n # common) (n # ns) @ [n # ns]"
  let ?rest = "map (\<lambda>n. n # common) ns"
  have n_common: "n \<notin> set common" and n_ns: "n \<notin> set ns"
    using Cons.prems by auto
  have ns_ne: "\<And>m. m \<in> set ns \<Longrightarrow> m \<noteq> n" using n_ns by auto
  show ?case
  proof (cases "common = []")
    case True
    have ne: "filter (\<lambda>s. s \<noteq> []) ?seqs = map (\<lambda>n. [n]) (n # ns) @ [n # ns]"
      using True by (simp add: filter_empty_conv)
    have cand: "c3_candidate (map (\<lambda>n. [n]) (n # ns) @ [n # ns]) = Some n"
      using n_ns by (simp add: c3_candidate_def list_all_iff)
    have step: "map (\<lambda>s. if hd s = n then tl s else s) (map (\<lambda>n. [n]) (n # ns) @ [n # ns]) =
        [] # map (\<lambda>n. [n]) ns @ [ns]"
    proof -
      have "map ((\<lambda>s. if hd s = n then tl s else s) \<circ> (\<lambda>n. [n])) ns = map (\<lambda>n. [n]) ns"
        by (rule map_cong) (use ns_ne in auto)
      then show ?thesis by simp
    qed
    have "c3_merge ?seqs = map_option ((#) n) (c3_merge ([] # map (\<lambda>n. [n]) ns @ [ns]))"
      by (subst c3_merge.simps) (simp only: ne Let_def cand option.case step, simp)
    also have "c3_merge ([] # map (\<lambda>n. [n]) ns @ [ns]) =
        c3_merge (replicate (Suc j) common @ map (\<lambda>n. n # common) ns @ [ns])"
      using True
      by (subst c3_merge_filter [symmetric], subst (2) c3_merge_filter [symmetric]) simp
    also have "\<dots> = Some (ns @ common)"
      using Cons.prems by (intro Cons.IH) auto
    finally show ?thesis by simp
  next
    case False
    then obtain c cs where common: "common = c # cs" by (cases common) auto
    have ne: "filter (\<lambda>s. s \<noteq> []) ?seqs = ?seqs"
      using False by (simp add: filter_id_conv)
    have cand: "c3_candidate ?seqs = Some n"
    proof -
      let ?P = "\<lambda>c. list_all (\<lambda>s. c \<notin> set (tl s)) ?seqs"
      have "\<not> ?P c" by (simp add: common)
      then have "find ?P (replicate j c) = None"
        by (simp add: find_None_iff)
      moreover have "?P n"
        using n_common n_ns by (auto simp: list_all_iff common)
      ultimately have f: "find ?P (replicate j c @ n # map hd ?rest @ [n]) = Some n"
        by (simp add: find_append_None)
      have mh: "map hd ?seqs = replicate j c @ n # map hd ?rest @ [n]"
        by (simp add: common)
      show ?thesis
        unfolding c3_candidate_def by (simp only: mh f)
    qed
    have step: "map (\<lambda>s. if hd s = n then tl s else s) ?seqs =
        replicate (Suc j) common @ ?rest @ [ns]"
    proof -
      let ?f = "\<lambda>s. if hd s = n then tl s else s"
      have "c \<noteq> n" using n_common common by auto
      then have r: "map ?f (replicate j common) = replicate j common"
        by (simp add: common)
      have m: "map ?f ?rest = ?rest"
        by (rule map_idI) (use n_ns in auto)
      have "map ?f ?seqs = replicate j common @ common # ?rest @ [ns]"
        by (simp only: map_append list.map r m) simp
      also have "\<dots> = replicate (Suc j) common @ ?rest @ [ns]"
        by (simp add: replicate_app_Cons_same)
      finally show ?thesis .
    qed
    have "c3_merge ?seqs = map_option ((#) n) (c3_merge (replicate (Suc j) common @ ?rest @ [ns]))"
      by (subst c3_merge.simps) (simp only: ne Let_def cand option.case step, simp)
    also have "c3_merge (replicate (Suc j) common @ ?rest @ [ns]) = Some (ns @ common)"
      using Cons.prems by (intro Cons.IH) auto
    finally show ?thesis by simp
  qed
qed

lemma method_resolution_order_siblings:
  assumes "bs \<noteq> []"
      and "distinct (map cls_name bs)"
      and "\<forall>b\<in>set bs. mro b = cls_name b # common"
      and "cls_name ` set bs \<inter> set common = {}"
      and "distinct common"
  shows "method_resolution_order bs = Inr (map cls_name bs @ common)"
proof -
  have e: "map mro bs = map (\<lambda>n. n # common) (map cls_name bs)"
    using assms(3) by (simp add: comp_def)
  have "c3_merge (replicate 0 common @ map (\<lambda>n. n # common) (map cls_name bs) @ [map cls_name bs]) =
          Some (map cls_name bs @ common)"
    using assms by (intro c3_merge_siblings_aux) auto
  then have "c3_merge (map mro bs @ [map cls_name bs]) = Some (map cls_name bs @ common)"
    by (simp only: e replicate_0 append_Nil)
  then show ?thesis
    using assms(2) by (simp add: method_resolution_order_def)
qed

text \<open>
  The classes the sources compose for the collection route are such siblings: each is a
  direct subclass of \<open>APIRequest\<close>.
\<close>

lemma method_resolution_order_declared:
  "method_resolution_order [projr (CollectionUri d), projr EmptyRequest, projr GETPagination] =
     Inr [''CollectionUri'', ''EmptyRequest'', ''GETPagination'', ''APIRequest'', ''ABC'', ''object'']"
  using method_resolution_order_siblings
    [of "[projr (CollectionUri d), projr EmptyRequest, projr GETPagination]"
        "[''APIRequest'', ''ABC'', ''object'']"]
  by (simp add: CollectionUri_def EmptyRequest_def GETPagination_def make_class_def
      mro_defs collect_base_attrs_def APIRequest_def attr_ib_def)

subsection \<open>POST: flattening into body parameters\<close>









lemma default_factory_body_param [simp]:
  "default_factory (body_param info) = default_factory info"
  by (simp add: body_param_def Body_def field_keywords.defs FieldInfo.defs)

lemma body_param_attributes:
  "kind (body_param info) = BodyKind"
  "default (body_param info) = (if default info = Undefined then PyNone else default info)"
  "field_alias (body_param info) = field_alias info"
  "alias_priority (body_param info) = alias_priority info"
  "title (body_param info) = title info"
  "description (body_param info) = description info"
  "const (body_param info) = const info"
  "gt (body_param info) = gt info"
  "ge (body_param info) = ge info"
  "lt (body_param info) = lt info"
  "le (body_param info) = le info"
  "multiple_of (body_param info) = multiple_of info"
  "min_items (body_param info) = min_items info"
  "max_items (body_param info) = max_items info"
  "min_length (body_param info) = min_length info"
  "max_length (body_param info) = max_length info"
  "regex (body_param info) = regex info"
  by (simp_all add: body_param_def Body_def field_keywords.defs FieldInfo.defs)

lemma has_bounds_body_param [simp]: "has_bounds (body_param info) = has_bounds info"
  by (simp add: has_bounds_def body_param_attributes)





text \<open>
  A field declared with a numeric bound: its type is constrained already, the body
  parameter carries the bound again, and pydantic refuses the definition.
\<close>

lemma create_request_model_post_bounded_field:
  "create_request_model ''SearchPostRequest''
     \<lparr>cls_name = ''Bounded'', bases = [''BaseModel''],
      mro = [''Bounded'', ''BaseModel'', ''Representation'', ''object''],
      is_APIRequest = False, is_BaseModel = True,
      attrs_attrs = [], class_vars = [],
      model_fields = [(''limit'', \<lparr>field_info = (plain_field (PyInt 10))\<lparr>gt := Some 0\<rparr>,
                                  outer_type = Constrained ''int''\<rparr>)]\<rparr>
     None None ''POST'' =
   Inl (ValueError ''the following field constraints are set but not enforced'')"
  by (simp add: create_request_model_def request_models_list_def create_model_def
      add_model_fields_def body_param_def Body_def plain_field_def FieldInfo_init_def
      has_bounds_def field_keywords.defs FieldInfo.defs)

subsection \<open>The item and item-collection route models\<close>

text \<open>
  C10. Whatever the descriptions, and with no reference to any extension, \<open>ItemUri\<close>
  declares the parameter \<open>crs\<close> with the CRS84 URI as its default, and
  \<open>ItemCollectionUri\<close> declares \<open>limit\<close> (default 10), \<open>bbox\<close>, \<open>datetime\<close>,
  \<open>crs\<close>, \<open>bbox-crs\<close> and \<open>filter-crs\<close> (each CRS parameter with the CRS84 URI as
  its default), \<open>filter\<close> (default \<open>None\<close>) and \<open>filter-lang\<close> (default
  \<open>cql-json\<close>), next to the path parameters they inherit or declare.
\<close>

theorem item_route_models_parameters:
  "(\<exists>m. ItemUri d = Inr m \<and>
        parameters m =
          [(''collection_id'', Some Ellipsis),
           (''item_id'', Some Ellipsis),
           (''crs'', Some (PyStr ''http://www.opengis.net/def/crs/OGC/1.3/CRS84''))]) \<and>
   (\<exists>m. ItemCollectionUri d = Inr m \<and>
        parameters m =
          [(''collection_id'', Some Ellipsis),
           (''limit'', Some (PyInt 10)),
           (''bbox'', Some PyNone),
           (''bbox-crs'', Some (PyStr ''http://www.opengis.net/def/crs/OGC/1.3/CRS84'')),
           (''datetime'', Some PyNone),
           (''crs'', Some (PyStr ''http://www.opengis.net/def/crs/OGC/1.3/CRS84'')),
           (''filter'', Some PyNone),
           (''filter-lang'', Some (PyStr ''cql-json'')),
           (''filter-crs'', Some (PyStr ''http://www.opengis.net/def/crs/OGC/1.3/CRS84''))])"
  by (simp add: ItemUri_def ItemCollectionUri_def class_from_def CollectionUri_value
      make_class_def mro_defs collect_base_attrs_def attr_ib_def parameters_def parameter_name_def
      Query_def Path_def FieldInfo_init_def CRS84_def)


section \<open>Properties of the proxy-header resolver\<close>

lemmas resolver_defs =
  get_forwarded_url_parts_def get_header_value_by_name_def request_host_port_def
  forwarded_host_port_def forwarded_directives_def directive_def rsplit_last_def
  parse_int_def digit_def lower_def lower_char_def

text \<open>
  The cases of api/tests/test_middleware.py, on the model.
\<close>

lemma test_get_header_value_by_name:
  "get_header_value_by_name \<lparr>scheme = sch, server = srv, headers = [(''host'', ''testserver'')]\<rparr>
     ''host'' = Some ''testserver''"
  "get_header_value_by_name \<lparr>scheme = sch, server = srv, headers = [(''host'', ''testserver'')]\<rparr>
     ''user-agent'' = None"
  "get_header_value_by_name \<lparr>scheme = sch, server = srv,
      headers = [(''host'', ''testserver''), (''accept-encoding'', ''gzip, deflate, br'')]\<rparr>
     ''accept-encoding'' = Some ''gzip, deflate, br''"
  by (simp_all add: get_header_value_by_name_def lower_def lower_char_def)

lemma test_get_forwarded_url_parts:
  "get_forwarded_url_parts \<lparr>scheme = ''https'', server = (''testserver'', 80), headers = []\<rparr> =
     (''https'', ''testserver'', Some 80, None)"
  "get_forwarded_url_parts \<lparr>scheme = ''http'', server = (''testserver'', 80),
      headers = [(''host'', ''testserver:81'')]\<rparr> =
     (''http'', ''testserver'', Some 81, None)"
  "get_forwarded_url_parts \<lparr>scheme = ''http'', server = (''testserver'', 80),
      headers = [(''host'', ''testserver'')]\<rparr> =
     (''http'', ''testserver'', None, None)"
  "get_forwarded_url_parts \<lparr>scheme = ''http'', server = (''testserver'', 80),
      headers = [(''forwarded'', ''proto=https;host=test:1234'')]\<rparr> =
     (''https'', ''test'', Some 1234, None)"
  "get_forwarded_url_parts \<lparr>scheme = ''http'', server = (''testserver'', 80),
      headers = [(''forwarded'', ''proto=https;host=test:not-an-integer'')]\<rparr> =
     (''https'', ''test'', Some 80, None)"
  "get_forwarded_url_parts \<lparr>scheme = ''http'', server = (''testserver'', 80),
      headers = [(''x-forwarded-host'', ''test'')]\<rparr> =
     (''http'', ''test'', Some 80, None)"
  "get_forwarded_url_parts \<lparr>scheme = ''http'', server = (''testserver'', 80),
      headers = [(''x-forwarded-proto'', ''https'')]\<rparr> =
     (''https'', ''testserver'', Some 80, None)"
  "get_forwarded_url_parts \<lparr>scheme = ''http'', server = (''testserver'', 80),
      headers = [(''x-forwarded-port'', ''1111'')]\<rparr> =
     (''http'', ''testserver'', Some 1111, None)"
  "get_forwarded_url_parts \<lparr>scheme = ''http'', server = (''testserver'', 80),
      headers = [(''x-forwarded-prefix'', ''/rest'')]\<rparr> =
     (''http'', ''testserver'', Some 80, Some ''/rest'')"
  "get_forwarded_url_parts \<lparr>scheme = ''http'', server = (''testserver'', 80),
      headers = [(''x-forwarded-port'', ''not-an-integer'')]\<rparr> =
     (''http'', ''testserver'', Some 80, None)"
  "get_forwarded_url_parts \<lparr>scheme = ''http'', server = (''testserver'', 80),
      headers = [(''forwarded'', ''proto=https;host=test:1234''),
                 (''x-forwarded-host'', ''another-test''),
                 (''x-forwarded-port'', ''1111''),
                 (''x-forwarded-proto'', ''https'')]\<rparr> =
     (''https'', ''test'', Some 1234, None)"
  by (simp_all add: resolver_defs)

lemma header_value_replace_value:
  "header_value (replace_value hs name v) name = Some v"
  by (induction hs) auto

lemma replace_value_absent:
  "header_value hs name = None \<Longrightarrow> replace_value hs name v = hs @ [(name, v)]"
  by (induction hs) (auto split: if_splits)

lemma replace_value_present:
  "header_value hs name \<noteq> None \<Longrightarrow>
     map fst (replace_value hs name v) = map fst hs"
  by (induction hs) (auto split: if_splits)

text \<open>
  C6. For every scope, header name and value \<open>v\<close>: reading the named header from the
  scope whose headers are those returned by the replacement yields \<open>v\<close>. When the name
  was absent the header is appended; when it was present the names and their order are
  unchanged.
\<close>

theorem get_replaced_header_value:
  "get_header_value_by_name (s\<lparr>headers := replace_header_value_by_name s name v\<rparr>) name = Some v \<and>
   (get_header_value_by_name s name = None \<longrightarrow>
      replace_header_value_by_name s name v = headers s @ [(name, v)]) \<and>
   (get_header_value_by_name s name \<noteq> None \<longrightarrow>
      map fst (replace_header_value_by_name s name v) = map fst (headers s))"
  by (simp add: get_header_value_by_name_def replace_header_value_by_name_def
      header_value_replace_value replace_value_absent replace_value_present)

theorem get_replaced_header_value_witness:
  "get_header_value_by_name
     \<lparr>scheme = ''http'', server = (''testserver'', 80), headers = [(''host'', ''testserver'')]\<rparr>
     ''user-agent'' = None \<and>
   replace_header_value_by_name
     \<lparr>scheme = ''http'', server = (''testserver'', 80), headers = [(''host'', ''testserver'')]\<rparr>
     ''user-agent'' ''agent'' = [(''host'', ''testserver''), (''user-agent'', ''agent'')] \<and>
   get_header_value_by_name
     (\<lparr>scheme = ''http'', server = (''testserver'', 80), headers = [(''host'', ''testserver'')]\<rparr>
        \<lparr>headers := replace_header_value_by_name
           \<lparr>scheme = ''http'', server = (''testserver'', 80), headers = [(''host'', ''testserver'')]\<rparr>
           ''user-agent'' ''agent''\<rparr>)
     ''user-agent'' = Some ''agent'' \<and>
   get_header_value_by_name
     \<lparr>scheme = ''http'', server = (''testserver'', 80), headers = [(''host'', ''testserver'')]\<rparr>
     ''host'' \<noteq> None \<and>
   map fst (replace_header_value_by_name
     \<lparr>scheme = ''http'', server = (''testserver'', 80), headers = [(''host'', ''testserver'')]\<rparr>
     ''host'' ''another-server'') = [''host''] \<and>
   get_header_value_by_name
     (\<lparr>scheme = ''http'', server = (''testserver'', 80), headers = [(''host'', ''testserver'')]\<rparr>
        \<lparr>headers := replace_header_value_by_name
           \<lparr>scheme = ''http'', server = (''testserver'', 80), headers = [(''host'', ''testserver'')]\<rparr>
           ''host'' ''another-server''\<rparr>)
     ''host'' = Some ''another-server''"
proof -
  let ?s = "\<lparr>scheme = ''http'', server = (''testserver'', 80), headers = [(''host'', ''testserver'')]\<rparr>"
  have a: "get_header_value_by_name ?s ''user-agent'' = None"
    by (simp add: get_header_value_by_name_def lower_def lower_char_def)
  have b: "get_header_value_by_name ?s ''host'' \<noteq> None"
    by (simp add: get_header_value_by_name_def)
  from get_replaced_header_value [of ?s "''user-agent''" "''agent''"] a
  have 1: "replace_header_value_by_name ?s ''user-agent'' ''agent'' =
             headers ?s @ [(''user-agent'', ''agent'')]"
    and 2: "get_header_value_by_name
              (?s\<lparr>headers := replace_header_value_by_name ?s ''user-agent'' ''agent''\<rparr>)
              ''user-agent'' = Some ''agent''"
    by blast+
  from get_replaced_header_value [of ?s "''host''" "''another-server''"] b
  have 3: "map fst (replace_header_value_by_name ?s ''host'' ''another-server'') =
             map fst (headers ?s)"
    and 4: "get_header_value_by_name
              (?s\<lparr>headers := replace_header_value_by_name ?s ''host'' ''another-server''\<rparr>)
              ''host'' = Some ''another-server''"
    by blast+
  from a b 1 2 3 4 show ?thesis by simp
qed

lemma rsplit_last_append:
  "sep \<notin> set seg \<Longrightarrow> rsplit_last sep (h @ sep # seg) = Some (h, seg)"
proof -
  assume a: "sep \<notin> set seg"
  then have "takeWhile (\<lambda>c. c \<noteq> sep) (rev seg @ sep # rev h) = rev seg"
    by (intro takeWhile_tail [THEN trans]) auto
  then show ?thesis
    by (simp add: rsplit_last_def)
qed

text \<open>
  C5. For every scope with a \<open>Forwarded\<close> header whose \<open>host=\<close> directive is
  \<open>h:seg\<close>, \<open>seg\<close> being what follows the last colon: when \<open>seg\<close> does not parse as
  an integer the resolved host is \<open>h\<close> and the resolved port is the server port of the
  original request. The instance that follows is \<open>proto=https;host=test:not-an-integer\<close> with
  server port 80.
\<close>

theorem forwarded_port_fallback:
  assumes "get_header_value_by_name s ''forwarded'' = Some forwarded"
      and "map_of (forwarded_directives forwarded) ''host'' = Some (h @ CHR '':'' # seg)"
      and "CHR '':'' \<notin> set seg"
      and "parse_int seg = None"
  shows "fst (snd (get_forwarded_url_parts s)) = h \<and>
         fst (snd (snd (get_forwarded_url_parts s))) = Some (snd (server s))"
  using assms
  by (simp add: get_forwarded_url_parts_def forwarded_host_port_def rsplit_last_append Let_def)

theorem forwarded_port_fallback_witness:
  "get_header_value_by_name
     \<lparr>scheme = ''http'', server = (''testserver'', 80),
      headers = [(''forwarded'', ''proto=https;host=test:not-an-integer'')]\<rparr> ''forwarded'' =
     Some ''proto=https;host=test:not-an-integer'' \<and>
   map_of (forwarded_directives ''proto=https;host=test:not-an-integer'') ''host'' =
     Some (''test'' @ CHR '':'' # ''not-an-integer'') \<and>
   CHR '':'' \<notin> set ''not-an-integer'' \<and>
   parse_int ''not-an-integer'' = None \<and>
   get_forwarded_url_parts
     \<lparr>scheme = ''http'', server = (''testserver'', 80),
      headers = [(''forwarded'', ''proto=https;host=test:not-an-integer'')]\<rparr> =
     (''https'', ''test'', Some 80, None)"
proof -
  let ?s = "\<lparr>scheme = ''http'', server = (''testserver'', 80),
             headers = [(''forwarded'', ''proto=https;host=test:not-an-integer'')]\<rparr>"
  have f: "get_header_value_by_name ?s ''forwarded'' = Some ''proto=https;host=test:not-an-integer''"
    by (simp add: get_header_value_by_name_def)
  have h: "map_of (forwarded_directives ''proto=https;host=test:not-an-integer'') ''host'' =
             Some (''test'' @ CHR '':'' # ''not-an-integer'')"
    by (simp add: forwarded_directives_def directive_def)
  have c: "CHR '':'' \<notin> set ''not-an-integer''" by simp
  have p: "parse_int ''not-an-integer'' = None"
    by (simp add: parse_int_def digit_def)
  have proto: "fst (get_forwarded_url_parts ?s) = ''https''"
    using f by (simp add: get_forwarded_url_parts_def forwarded_directives_def directive_def Let_def
        split: prod.splits)
  have prefix: "snd (snd (snd (get_forwarded_url_parts ?s))) = None"
    using f by (simp add: get_forwarded_url_parts_def get_header_value_by_name_def lower_def
        lower_char_def Let_def split: prod.splits)
  from forwarded_port_fallback [OF f h c p] proto prefix
  have "get_forwarded_url_parts ?s = (''https'', ''test'', Some 80, None)"
    by (simp add: prod_eq_iff)
  with f h c p show ?thesis by blast
qed

lemma rsplit_last_none: "sep \<notin> set v \<Longrightarrow> rsplit_last sep v = None"
  by (simp add: rsplit_last_def)

text \<open>
  C4. For every scope with a \<open>Forwarded\<close> header, the result is fixed by that header and
  the request's own scheme and server: the scheme is that of the \<open>proto=\<close> directive
  (the request's scheme when there is none); the host is that of the \<open>host=\<close> directive,
  up to its last colon when it has one (the server's host when there is no such
  directive); the port is the one after that colon when it parses and the server's port
  otherwise; the path prefix is null. Every scope with the same scheme, server and
  \<open>Forwarded\<close> value resolves to the same result, whatever its \<open>X-Forwarded-*\<close> and
  \<open>Host\<close> headers. The instance that follows is \<open>proto=https;host=test:1234\<close> next to
  \<open>X-Forwarded-Host\<close>, \<open>X-Forwarded-Port\<close>, \<open>X-Forwarded-Proto\<close> and
  \<open>X-Forwarded-Prefix\<close>.
\<close>

theorem forwarded_header_wins:
  assumes "get_header_value_by_name s ''forwarded'' = Some forwarded"
  shows "snd (snd (snd (get_forwarded_url_parts s))) = None \<and>
         (\<forall>p. map_of (forwarded_directives forwarded) ''proto'' = Some p \<longrightarrow>
              fst (get_forwarded_url_parts s) = p) \<and>
         (map_of (forwarded_directives forwarded) ''proto'' = None \<longrightarrow>
              fst (get_forwarded_url_parts s) = scheme s) \<and>
         (\<forall>h seg n. map_of (forwarded_directives forwarded) ''host'' = Some (h @ CHR '':'' # seg) \<and>
              CHR '':'' \<notin> set seg \<and> parse_int seg = Some n \<longrightarrow>
              fst (snd (get_forwarded_url_parts s)) = h \<and>
              fst (snd (snd (get_forwarded_url_parts s))) = Some n) \<and>
         (\<forall>h seg. map_of (forwarded_directives forwarded) ''host'' = Some (h @ CHR '':'' # seg) \<and>
              CHR '':'' \<notin> set seg \<and> parse_int seg = None \<longrightarrow>
              fst (snd (get_forwarded_url_parts s)) = h \<and>
              fst (snd (snd (get_forwarded_url_parts s))) = Some (snd (server s))) \<and>
         (\<forall>h. map_of (forwarded_directives forwarded) ''host'' = Some h \<and> CHR '':'' \<notin> set h \<longrightarrow>
              fst (snd (get_forwarded_url_parts s)) = h \<and>
              fst (snd (snd (get_forwarded_url_parts s))) = Some (snd (server s))) \<and>
         (map_of (forwarded_directives forwarded) ''host'' = None \<longrightarrow>
              fst (snd (get_forwarded_url_parts s)) = fst (server s) \<and>
              fst (snd (snd (get_forwarded_url_parts s))) = Some (snd (server s))) \<and>
         (\<forall>s'. scheme s' = scheme s \<and> server s' = server s \<and>
              get_header_value_by_name s' ''forwarded'' = Some forwarded \<longrightarrow>
              get_forwarded_url_parts s' = get_forwarded_url_parts s)"
  using assms
  by (auto simp: get_forwarded_url_parts_def forwarded_host_port_def rsplit_last_append
      rsplit_last_none Let_def split: option.splits prod.splits)

theorem forwarded_header_wins_witness:
  "get_header_value_by_name
     \<lparr>scheme = ''http'', server = (''testserver'', 80),
      headers = [(''forwarded'', ''proto=https;host=test:1234''),
                 (''x-forwarded-host'', ''another-test''),
                 (''x-forwarded-port'', ''1111''),
                 (''x-forwarded-proto'', ''https''),
                 (''x-forwarded-prefix'', ''/rest'')]\<rparr> ''forwarded'' =
     Some ''proto=https;host=test:1234'' \<and>
   map_of (forwarded_directives ''proto=https;host=test:1234'') ''proto'' = Some ''https'' \<and>
   map_of (forwarded_directives ''proto=https;host=test:1234'') ''host'' =
     Some (''test'' @ CHR '':'' # ''1234'') \<and>
   CHR '':'' \<notin> set ''1234'' \<and>
   parse_int ''1234'' = Some 1234 \<and>
   get_forwarded_url_parts
     \<lparr>scheme = ''http'', server = (''testserver'', 80),
      headers = [(''forwarded'', ''proto=https;host=test:1234''),
                 (''x-forwarded-host'', ''another-test''),
                 (''x-forwarded-port'', ''1111''),
                 (''x-forwarded-proto'', ''https''),
                 (''x-forwarded-prefix'', ''/rest'')]\<rparr> =
     (''https'', ''test'', Some 1234, None)"
proof -
  let ?s = "\<lparr>scheme = ''http'', server = (''testserver'', 80),
             headers = [(''forwarded'', ''proto=https;host=test:1234''),
                        (''x-forwarded-host'', ''another-test''),
                        (''x-forwarded-port'', ''1111''),
                        (''x-forwarded-proto'', ''https''),
                        (''x-forwarded-prefix'', ''/rest'')]\<rparr>"
  have f: "get_header_value_by_name ?s ''forwarded'' = Some ''proto=https;host=test:1234''"
    by (simp add: get_header_value_by_name_def)
  have p: "map_of (forwarded_directives ''proto=https;host=test:1234'') ''proto'' = Some ''https''"
    by (simp add: forwarded_directives_def directive_def)
  have h: "map_of (forwarded_directives ''proto=https;host=test:1234'') ''host'' =
             Some (''test'' @ CHR '':'' # ''1234'')"
    by (simp add: forwarded_directives_def directive_def)
  have c: "CHR '':'' \<notin> set ''1234''" by simp
  have n: "parse_int ''1234'' = Some 1234"
    by (simp add: parse_int_def digit_def)
  note w = forwarded_header_wins [OF f]
  from w have 1: "snd (snd (snd (get_forwarded_url_parts ?s))) = None" by blast
  from w p have 2: "fst (get_forwarded_url_parts ?s) = ''https''" by blast
  from w h c n have 3: "fst (snd (get_forwarded_url_parts ?s)) = ''test'' \<and>
      fst (snd (snd (get_forwarded_url_parts ?s))) = Some 1234"
    by blast
  from 1 2 3 have "get_forwarded_url_parts ?s = (''https'', ''test'', Some 1234, None)"
    by (simp add: prod_eq_iff)
  with f p h c n show ?thesis by blast
qed

end
